theory Spec2Isabelle
  imports Complex_Main "HOL-Library.Word"
begin

section \<open>Go runtime metrics collector (main.go)\<close>

text \<open>
  A shallow embedding of \<^verbatim>\<open>main.go\<close>: the constructor \<^verbatim>\<open>newMetricsCollector\<close>,
  the sampling callback it registers, the start-up part of \<^verbatim>\<open>main\<close> and the three
  demo route handlers.

  Go's \<^verbatim>\<open>uint64\<close>, \<^verbatim>\<open>uint32\<close> and \<^verbatim>\<open>int64\<close> are words: \<open>uint\<close>/\<open>unat\<close> read an
  unsigned value and \<open>sint\<close> a signed one. \<^verbatim>\<open>int\<close> is taken to be 64 bits wide.
  \<^verbatim>\<open>float64\<close> is modelled by the reals: the rounding of a conversion or of a
  division is not part of the model.
\<close>

subsection \<open>Machine types and conversions\<close>

type_synonym uint64 = "64 word"
type_synonym uint32 = "32 word"
type_synonym int64 = "64 word"
type_synonym go_int = "64 word"
type_synonym float64 = real

text \<open>\<^verbatim>\<open>int64(x)\<close> for \<^verbatim>\<open>x uint64\<close> keeps the 64 bits; the result is read signed.\<close>

definition int64_of_uint64 :: "uint64 \<Rightarrow> int64" where
  "int64_of_uint64 x = x"

text \<open>\<^verbatim>\<open>int64(x)\<close> for \<^verbatim>\<open>x uint32\<close> extends with zeros.\<close>

definition int64_of_uint32 :: "uint32 \<Rightarrow> int64" where
  "int64_of_uint32 x = ucast x"

text \<open>\<^verbatim>\<open>int64(x)\<close> for \<^verbatim>\<open>x int\<close> (64 bits) is the identity.\<close>

definition int64_of_int :: "go_int \<Rightarrow> int64" where
  "int64_of_int x = x"

text \<open>\<^verbatim>\<open>float64(x)\<close> for \<^verbatim>\<open>x uint64\<close>.\<close>

definition float64_of_uint64 :: "uint64 \<Rightarrow> float64" where
  "float64_of_uint64 x = real (unat x)"

subsection \<open>The runtime's statistics\<close>

text \<open>The fields of \<^verbatim>\<open>runtime.MemStats\<close> that the callback reads.\<close>

record MemStats =
  HeapAlloc :: uint64
  HeapIdle :: uint64
  HeapInuse :: uint64
  HeapObjects :: uint64
  HeapReleased :: uint64
  HeapSys :: uint64
  GCCPUFraction :: float64
  GCSys :: uint64
  StackInuse :: uint64
  StackSys :: uint64
  NumGC :: uint32
  LastGC :: uint64

text \<open>
  What the runtime answers at one instant: \<^verbatim>\<open>runtime.ReadMemStats\<close>,
  \<^verbatim>\<open>runtime.NumGoroutine()\<close> and \<^verbatim>\<open>runtime.NumCPU()\<close>. \<open>ThreadsCreated\<close> is the number
  of OS threads the runtime has created (the quantity the \<^verbatim>\<open>go_threads\<close> instrument is
  described as: "Number of OS threads created"); no statement of the program reads it.
\<close>

record Runtime =
  ReadMemStats :: MemStats
  NumGoroutine :: go_int
  NumCPU :: go_int
  ThreadsCreated :: go_int

subsection \<open>Instruments\<close>

text \<open>The instrument fields of \<^verbatim>\<open>MetricsCollector\<close>, in the order of the struct.\<close>

datatype instrument =
    heapAlloc | heapIdle | heapInUse | heapObjects | heapReleased | heapSys
  | gcPauseDuration | gcCount | gcForced
  | activeGoroutines | totalGoroutines
  | gcCPUFraction | gcSys
  | goroutineExecTime | gcTime | systemTime
  | osThreads
  | stackInUse | stackSys
  | mutexWaitTime | mutexLockCount

text \<open>The constructors of the metrics API that the program calls.\<close>

datatype kind =
  Int64ObservableGauge | Float64ObservableGauge | Float64Histogram | Int64Counter

text \<open>
  The creation statements of \<^verbatim>\<open>newMetricsCollector\<close>, in source order: the field
  assigned, the name passed and the constructor called.
\<close>

definition declarations :: "(instrument \<times> string \<times> kind) list" where
  "declarations =
    [(heapAlloc, ''go_memstats_heap_alloc_bytes'', Int64ObservableGauge),
     (heapIdle, ''go_memstats_heap_idle_bytes'', Int64ObservableGauge),
     (heapInUse, ''go_memstats_heap_inuse_bytes'', Int64ObservableGauge),
     (heapObjects, ''go_memstats_heap_objects'', Int64ObservableGauge),
     (heapReleased, ''go_memstats_heap_released_bytes'', Int64ObservableGauge),
     (heapSys, ''go_memstats_heap_sys_bytes'', Int64ObservableGauge),
     (gcPauseDuration, ''go_gc_duration_seconds'', Float64Histogram),
     (gcCount, ''go_gc_cycles_total'', Int64Counter),
     (gcForced, ''go_gc_forced_total'', Int64Counter),
     (activeGoroutines, ''go_goroutines'', Int64ObservableGauge),
     (totalGoroutines, ''go_goroutines_created_total'', Int64Counter),
     (gcCPUFraction, ''go_gc_cpu_fraction'', Float64ObservableGauge),
     (gcSys, ''go_memstats_gc_sys_bytes'', Int64ObservableGauge),
     (goroutineExecTime, ''go_runtime_cpu_goroutine_seconds_total'', Int64Counter),
     (gcTime, ''go_gc_cpu_seconds_total'', Int64Counter),
     (systemTime, ''go_runtime_sys_seconds_total'', Int64Counter),
     (osThreads, ''go_threads'', Int64ObservableGauge),
     (stackInUse, ''go_memstats_stack_inuse_bytes'', Int64ObservableGauge),
     (stackSys, ''go_memstats_stack_sys_bytes'', Int64ObservableGauge),
     (mutexWaitTime, ''go_mutex_wait_seconds_total'', Int64Counter),
     (mutexLockCount, ''go_mutex_lock_total'', Int64Counter)]"

text \<open>The instruments passed to \<^verbatim>\<open>meter.RegisterCallback\<close> after the callback.\<close>

definition callback_instruments :: "instrument list" where
  "callback_instruments =
    [heapAlloc, heapIdle, heapInUse, heapObjects, heapReleased, heapSys,
     activeGoroutines, gcCPUFraction, gcSys, osThreads, stackInUse, stackSys]"

subsection \<open>The collector and the state of its instruments\<close>

text \<open>The two plain fields of \<^verbatim>\<open>MetricsCollector\<close> ("Runtime stats").\<close>

record MetricsCollector =
  lastPause :: uint64
  lastGC :: uint32

datatype number = Int64 int64 | Float64 float64

text \<open>
  The collector together with what its instruments hold: the sum of each counter, the
  values recorded into the histogram, and what the observer of the current collection
  was told. \<open>spawned\<close> counts goroutines launched by \<^verbatim>\<open>/spawn-goroutines\<close> whose body
  has not run yet.
\<close>

record World =
  collector :: MetricsCollector
  counter :: "instrument \<Rightarrow> int64"
  histogram :: "float64 list"
  observed :: "(instrument \<times> number) list"
  spawned :: nat

text \<open>\<^verbatim>\<open>c.Add(ctx, v)\<close> on an \<^verbatim>\<open>Int64Counter\<close>.\<close>

definition Add :: "instrument \<Rightarrow> int64 \<Rightarrow> World \<Rightarrow> World" where
  "Add c v w = w\<lparr>counter := (counter w)(c := counter w c + v)\<rparr>"

text \<open>\<^verbatim>\<open>h.Record(ctx, v)\<close> on the \<^verbatim>\<open>Float64Histogram\<close>.\<close>

definition Record :: "float64 \<Rightarrow> World \<Rightarrow> World" where
  "Record v w = w\<lparr>histogram := histogram w @ [v]\<rparr>"

definition ObserveInt64 :: "instrument \<Rightarrow> int64 \<Rightarrow> World \<Rightarrow> World" where
  "ObserveInt64 g v w = w\<lparr>observed := observed w @ [(g, Int64 v)]\<rparr>"

definition ObserveFloat64 :: "instrument \<Rightarrow> float64 \<Rightarrow> World \<Rightarrow> World" where
  "ObserveFloat64 g v w = w\<lparr>observed := observed w @ [(g, Float64 v)]\<rparr>"

text \<open>The value last observed for a gauge in the current collection.\<close>

definition published :: "World \<Rightarrow> instrument \<Rightarrow> number option" where
  "published w g = map_of (rev (observed w)) g"

subsection \<open>The sampling callback\<close>

text \<open>The twelve \<^verbatim>\<open>o.Observe...\<close> statements, in source order.\<close>

definition observe_gauges :: "Runtime \<Rightarrow> World \<Rightarrow> World" where
  "observe_gauges rt w =
    (let stats = ReadMemStats rt;
         w = ObserveInt64 heapAlloc (int64_of_uint64 (HeapAlloc stats)) w;
         w = ObserveInt64 heapIdle (int64_of_uint64 (HeapIdle stats)) w;
         w = ObserveInt64 heapInUse (int64_of_uint64 (HeapInuse stats)) w;
         w = ObserveInt64 heapObjects (int64_of_uint64 (HeapObjects stats)) w;
         w = ObserveInt64 heapReleased (int64_of_uint64 (HeapReleased stats)) w;
         w = ObserveInt64 heapSys (int64_of_uint64 (HeapSys stats)) w;
         w = ObserveInt64 activeGoroutines (int64_of_int (NumGoroutine rt)) w;
         w = ObserveFloat64 gcCPUFraction (GCCPUFraction stats) w;
         w = ObserveInt64 gcSys (int64_of_uint64 (GCSys stats)) w;
         w = ObserveInt64 osThreads (int64_of_int (NumCPU rt)) w;
         w = ObserveInt64 stackInUse (int64_of_uint64 (StackInuse stats)) w;
         w = ObserveInt64 stackSys (int64_of_uint64 (StackSys stats)) w
     in w)"

text \<open>The block under "Update GC metrics".\<close>

definition update_gc :: "Runtime \<Rightarrow> World \<Rightarrow> World" where
  "update_gc rt w =
    (let stats = ReadMemStats rt in
     if NumGC stats > lastGC (collector w) then
       let delta = NumGC stats - lastGC (collector w);
           w = Add gcCount (int64_of_uint32 delta) w;
           w = (if LastGC stats > lastPause (collector w) then
                  let pauseNs = LastGC stats - lastPause (collector w)
                  in Record (float64_of_uint64 pauseNs / 1000000000) w
                else w);
           w = w\<lparr>collector := (collector w)\<lparr>lastGC := NumGC stats\<rparr>\<rparr>;
           w = w\<lparr>collector := (collector w)\<lparr>lastPause := LastGC stats\<rparr>\<rparr>
       in w
     else w)"

text \<open>
  One invocation of the callback: a collection starts with a fresh observer, the gauges
  are observed and the GC block runs.
\<close>

definition callback :: "Runtime \<Rightarrow> World \<Rightarrow> World" where
  "callback rt w = update_gc rt (observe_gauges rt (w\<lparr>observed := []\<rparr>))"

subsection \<open>Construction and start-up\<close>

text \<open>A Go \<^verbatim>\<open>error\<close>, by its message.\<close>

datatype err = Err string

text \<open>
  The metrics backend as the constructor sees it: given the instruments created so far,
  a creation either succeeds (\<open>None\<close>) or is rejected with an error; so is the
  registration of the callback.
\<close>

record Meter =
  create :: "(string \<times> kind) list \<Rightarrow> string \<Rightarrow> kind \<Rightarrow> err option"
  RegisterCallback :: "(string \<times> kind) list \<Rightarrow> instrument list \<Rightarrow> err option"

text \<open>
  The chain of creations, each followed by \<^verbatim>\<open>if err != nil { return nil, err }\<close>. The
  result holds the instruments created before the chain stopped and the error, if any.
\<close>

fun create_all ::
  "Meter \<Rightarrow> (string \<times> kind) list \<Rightarrow> (instrument \<times> string \<times> kind) list
    \<Rightarrow> (string \<times> kind) list \<times> err option" where
  "create_all m created [] = (created, None)"
| "create_all m created ((f, n, k) # ds) =
    (case create m created n k of
       Some e \<Rightarrow> (created, Some e)
     | None \<Rightarrow> create_all m (created @ [(n, k)]) ds)"

text \<open>
  \<^verbatim>\<open>newMetricsCollector\<close>: the instruments created at the backend, and the returned
  pair of collector and error. \<^verbatim>\<open>mc := &MetricsCollector{}\<close> zeroes both plain fields;
  the last statement is \<^verbatim>\<open>return mc, err\<close> with the error of \<^verbatim>\<open>RegisterCallback\<close>.
\<close>

definition newMetricsCollector ::
  "Meter \<Rightarrow> (string \<times> kind) list \<times> MetricsCollector option \<times> err option" where
  "newMetricsCollector m =
    (let mc = \<lparr>lastPause = 0, lastGC = 0\<rparr> in
     case create_all m [] declarations of
       (created, Some e) \<Rightarrow> (created, None, Some e)
     | (created, None) \<Rightarrow>
         (created, Some mc, RegisterCallback m created callback_instruments))"

text \<open>
  \<^verbatim>\<open>main\<close> up to \<^verbatim>\<open>r.Run(":8080")\<close>. \<^verbatim>\<open>log.Fatal\<close> ends the process; otherwise the
  routes are installed and the server is run with the instruments created and the
  collector returned.
\<close>

datatype outcome = Fatal err | Run "(string \<times> kind) list" "MetricsCollector option"

definition main :: "err option \<Rightarrow> Meter \<Rightarrow> outcome" where
  "main prometheus_New meter =
    (case prometheus_New of
       Some e \<Rightarrow> Fatal e
     | None \<Rightarrow>
        (case newMetricsCollector meter of
           (created, mc, Some e) \<Rightarrow> Fatal e
         | (created, mc, None) \<Rightarrow> Run created mc))"

subsection \<open>Requests\<close>

text \<open>
  What can happen once the server runs, one atomic step each: a scrape of
  \<^verbatim>\<open>/metrics\<close>, which collects and so invokes the callback on the runtime's answer; the
  three demo routes; and the body of one goroutine launched by \<^verbatim>\<open>/spawn-goroutines\<close>.
  \<open>SimulateMutex\<close> carries \<^verbatim>\<open>time.Since(start).Nanoseconds()\<close>.
\<close>

datatype event =
    Metrics Runtime
  | AllocateMemory
  | SpawnGoroutines
  | GoroutineBody
  | SimulateMutex int64

fun step :: "event \<Rightarrow> World \<Rightarrow> World" where
  "step (Metrics rt) w = callback rt w"
| "step AllocateMemory w = w"
| "step SpawnGoroutines w = w\<lparr>spawned := spawned w + 10\<rparr>"
| "step GoroutineBody w =
    (if spawned w = 0 then w
     else (Add totalGoroutines 1 w)\<lparr>spawned := spawned w - 1\<rparr>)"
| "step (SimulateMutex elapsed) w = Add mutexLockCount 1 (Add mutexWaitTime elapsed w)"

fun run :: "event list \<Rightarrow> World \<Rightarrow> World" where
  "run [] w = w"
| "run (e # es) w = run es (step e w)"

text \<open>
  The state in which a started process begins to serve: the collector as
  \<^verbatim>\<open>newMetricsCollector\<close> returns it, and every instrument empty.
\<close>

definition init_world :: World where
  "init_world =
    \<lparr>collector = \<lparr>lastPause = 0, lastGC = 0\<rparr>, counter = (\<lambda>_. 0), histogram = [],
     observed = [], spawned = 0\<rparr>"

subsection \<open>Table 4.1 of the specification\<close>

text \<open>
  The instrument table as the specification words it, row by row, for comparison with
  \<open>declarations\<close>; \<open>kind_in_table\<close> reads a constructor of the metrics API as one of the
  table's three kinds.
\<close>

datatype table_kind = Gauge | Counter | Histogram

fun kind_in_table :: "kind \<Rightarrow> table_kind" where
  "kind_in_table Int64ObservableGauge = Gauge"
| "kind_in_table Float64ObservableGauge = Gauge"
| "kind_in_table Float64Histogram = Histogram"
| "kind_in_table Int64Counter = Counter"

definition table_4_1 :: "(string \<times> table_kind) list" where
  "table_4_1 =
    [(''heap_alloc_bytes'', Gauge),
     (''heap_idle_bytes'', Gauge),
     (''heap_inuse_bytes'', Gauge),
     (''heap_objects'', Gauge),
     (''heap_released_bytes'', Gauge),
     (''heap_sys_bytes'', Gauge),
     (''gc_duration_seconds'', Histogram),
     (''gc_cycles_total'', Counter),
     (''gc_forced_total'', Counter),
     (''goroutines'', Gauge),
     (''goroutines_created_total'', Counter),
     (''gc_cpu_fraction'', Gauge),
     (''gc_sys_bytes'', Gauge),
     (''cpu_goroutine_seconds_total'', Counter),
     (''gc_cpu_seconds_total'', Counter),
     (''sys_seconds_total'', Counter),
     (''os_threads'', Gauge),
     (''stack_inuse_bytes'', Gauge),
     (''stack_sys_bytes'', Gauge),
     (''mutex_wait_seconds_total'', Counter),
     (''mutex_lock_total'', Counter)]"

subsection \<open>Sample inputs\<close>

text \<open>A runtime answer with the given GC cycle count, last-GC time and heap size.\<close>

definition sample_stats :: "uint32 \<Rightarrow> uint64 \<Rightarrow> uint64 \<Rightarrow> MemStats" where
  "sample_stats n t h =
    \<lparr>HeapAlloc = h, HeapIdle = 0, HeapInuse = h, HeapObjects = 0, HeapReleased = 0,
     HeapSys = h, GCCPUFraction = 0, GCSys = 0, StackInuse = 0, StackSys = 0,
     NumGC = n, LastGC = t\<rparr>"

text \<open>A machine with 8 logical CPUs on which the runtime has created 12 OS threads.\<close>

definition sample_runtime :: "uint32 \<Rightarrow> uint64 \<Rightarrow> uint64 \<Rightarrow> Runtime" where
  "sample_runtime n t h =
    \<lparr>ReadMemStats = sample_stats n t h, NumGoroutine = 5, NumCPU = 8, ThreadsCreated = 12\<rparr>"

text \<open>A backend that accepts everything, and one that rejects only the given name.\<close>

definition accepting_meter :: Meter where
  "accepting_meter = \<lparr>create = (\<lambda>_ _ _. None), RegisterCallback = (\<lambda>_ _. None)\<rparr>"

definition rejecting_meter :: "string \<Rightarrow> Meter" where
  "rejecting_meter bad =
    \<lparr>create = (\<lambda>_ n _. if n = bad then Some (Err ''rejected'') else None),
     RegisterCallback = (\<lambda>_ _. None)\<rparr>"

section \<open>Properties\<close>

subsection \<open>Conversions between the integer types\<close>

lemma sint_eq_uint_64:
  fixes x :: "64 word"
  assumes "uint x < 2 ^ 63"
  shows "sint x = uint x"
proof -
  have "sint x = sint (word_of_int (uint x) :: 64 word)"
    by (simp only: word_of_int_uint)
  also have "\<dots> = (uint x + 2 ^ 63) mod 2 ^ 64 - 2 ^ 63"
    by (simp only: int_word_sint) simp
  also have "\<dots> = uint x"
    using assms by simp
  finally show ?thesis .
qed

lemma uint_ucast_32_64: "uint (ucast (a :: 32 word) :: 64 word) = uint a"
  by (rule uint_up_ucast) (simp add: is_up)

lemma uint_32_bound: "uint (a :: 32 word) < 2 ^ 63"
proof -
  have "uint a < 2 ^ 32" using uint_lt2p [of a] by simp
  then show ?thesis by simp
qed

lemma sint_int64_of_uint32: "sint (int64_of_uint32 a) = uint a"
  using sint_eq_uint_64 [of "ucast a"] uint_32_bound [of a]
  by (simp add: uint_ucast_32_64 int64_of_uint32_def)

lemma int64_of_uint32_add_diff:
  assumes "a < b"
  shows "int64_of_uint32 a + int64_of_uint32 (b - a) = int64_of_uint32 b"
proof -
  have "a \<le> b" using assms by simp
  then have d: "uint (b - a) = uint b - uint a"
    by (simp only: uint_minus_simple_alt)
  have "uint ((ucast a :: 64 word) + ucast (b - a)) = (uint a + uint (b - a)) mod 2 ^ 64"
    by (simp only: uint_word_ariths uint_ucast_32_64) simp
  also have "\<dots> = uint b mod 2 ^ 64" by (simp only: d) simp
  also have "\<dots> = uint (ucast b :: 64 word)"
    using uint_32_bound [of b] by (simp add: uint_ucast_32_64)
  finally show ?thesis by (simp only: word_uint_eq_iff int64_of_uint32_def)
qed

lemma uint_diff_uint32:
  fixes a b :: uint32
  assumes "a < b"
  shows "uint (b - a) = uint b - uint a"
proof -
  have "a \<le> b" using assms by simp
  then show ?thesis by (simp only: uint_minus_simple_alt)
qed

lemma float64_of_uint64_diff:
  assumes "a < b"
  shows "float64_of_uint64 (b - a) = real (unat b) - real (unat a)"
proof -
  have le: "a \<le> b" using assms by simp
  then have "unat (b - a) = unat b - unat a" by (rule unat_sub)
  moreover have "unat a \<le> unat b" using le by (simp add: word_le_nat_alt)
  ultimately show ?thesis by (simp add: float64_of_uint64_def of_nat_diff)
qed

subsection \<open>One invocation of the callback\<close>

lemma collector_observe_gauges [simp]:
  "collector (observe_gauges rt w) = collector w"
  by (simp add: observe_gauges_def Let_def ObserveInt64_def ObserveFloat64_def)

lemma counter_observe_gauges [simp]:
  "counter (observe_gauges rt w) = counter w"
  by (simp add: observe_gauges_def Let_def ObserveInt64_def ObserveFloat64_def)

lemma histogram_observe_gauges [simp]:
  "histogram (observe_gauges rt w) = histogram w"
  by (simp add: observe_gauges_def Let_def ObserveInt64_def ObserveFloat64_def)

lemma observed_update_gc [simp]:
  "observed (update_gc rt w) = observed w"
  by (simp add: update_gc_def Let_def Add_def Record_def)

lemma collector_callback:
  "collector (callback rt w) =
    (if lastGC (collector w) < NumGC (ReadMemStats rt)
     then \<lparr>lastPause = LastGC (ReadMemStats rt), lastGC = NumGC (ReadMemStats rt)\<rparr>
     else collector w)"
  by (simp add: callback_def update_gc_def Let_def Add_def Record_def)

lemma counter_callback:
  "counter (callback rt w) =
    (if lastGC (collector w) < NumGC (ReadMemStats rt)
     then (counter w)(gcCount := counter w gcCount +
            int64_of_uint32 (NumGC (ReadMemStats rt) - lastGC (collector w)))
     else counter w)"
  by (simp add: callback_def update_gc_def Let_def Add_def Record_def)

lemma histogram_callback:
  "histogram (callback rt w) = histogram w @
    (if lastGC (collector w) < NumGC (ReadMemStats rt) \<and>
        lastPause (collector w) < LastGC (ReadMemStats rt)
     then [float64_of_uint64 (LastGC (ReadMemStats rt) - lastPause (collector w)) / 1000000000]
     else [])"
  by (simp add: callback_def update_gc_def Let_def Add_def Record_def)

lemma observed_callback:
  "observed (callback rt w) =
    [(heapAlloc, Int64 (int64_of_uint64 (HeapAlloc (ReadMemStats rt)))),
     (heapIdle, Int64 (int64_of_uint64 (HeapIdle (ReadMemStats rt)))),
     (heapInUse, Int64 (int64_of_uint64 (HeapInuse (ReadMemStats rt)))),
     (heapObjects, Int64 (int64_of_uint64 (HeapObjects (ReadMemStats rt)))),
     (heapReleased, Int64 (int64_of_uint64 (HeapReleased (ReadMemStats rt)))),
     (heapSys, Int64 (int64_of_uint64 (HeapSys (ReadMemStats rt)))),
     (activeGoroutines, Int64 (int64_of_int (NumGoroutine rt))),
     (gcCPUFraction, Float64 (GCCPUFraction (ReadMemStats rt))),
     (gcSys, Int64 (int64_of_uint64 (GCSys (ReadMemStats rt)))),
     (osThreads, Int64 (int64_of_int (NumCPU rt))),
     (stackInUse, Int64 (int64_of_uint64 (StackInuse (ReadMemStats rt)))),
     (stackSys, Int64 (int64_of_uint64 (StackSys (ReadMemStats rt))))]"
  by (simp add: callback_def observe_gauges_def Let_def ObserveInt64_def ObserveFloat64_def)

subsection \<open>The GC counter follows the stored cycle count\<close>

lemma gcCount_step:
  assumes "counter w gcCount = int64_of_uint32 (lastGC (collector w))"
  shows "counter (step e w) gcCount = int64_of_uint32 (lastGC (collector (step e w)))"
proof (cases e)
  case (Metrics rt)
  show ?thesis
  proof (cases "lastGC (collector w) < NumGC (ReadMemStats rt)")
    case True
    then show ?thesis
      using assms int64_of_uint32_add_diff [OF True]
      by (simp add: Metrics counter_callback collector_callback)
  next
    case False
    then show ?thesis
      using assms by (simp add: Metrics counter_callback collector_callback)
  qed
qed (use assms in \<open>simp_all add: Add_def\<close>)

lemma gcCount_run:
  assumes "counter w gcCount = int64_of_uint32 (lastGC (collector w))"
  shows "counter (run evs w) gcCount = int64_of_uint32 (lastGC (collector (run evs w)))"
  using assms
proof (induction evs arbitrary: w)
  case Nil
  then show ?case by simp
next
  case (Cons e evs)
  show ?case
    using Cons.IH [OF gcCount_step [OF Cons.prems]] by simp
qed

lemma gcCount_reachable:
  "counter (run evs init_world) gcCount =
     int64_of_uint32 (lastGC (collector (run evs init_world)))"
  by (rule gcCount_run) (simp add: init_world_def int64_of_uint32_def)

lemma run_snoc: "run (evs @ [e]) w = step e (run evs w)"
  by (induction evs arbitrary: w) simp_all

lemma sint_gcCount_reachable:
  "sint (counter (run evs init_world) gcCount) = uint (lastGC (collector (run evs init_world)))"
  by (simp only: gcCount_reachable sint_int64_of_uint32)

lemma lastGC_step:
  "uint (lastGC (collector w)) \<le> uint (lastGC (collector (step e w)))"
  by (cases e) (simp_all add: collector_callback Add_def word_less_def)

subsection \<open>The histogram holds no negative value\<close>

lemma float64_of_uint64_nonneg: "0 \<le> float64_of_uint64 x / 1000000000"
  by (simp add: float64_of_uint64_def del: of_nat_unat)

lemma histogram_nonneg_step:
  assumes "\<forall>v \<in> set (histogram w). 0 \<le> v"
  shows "\<forall>v \<in> set (histogram (step e w)). 0 \<le> v"
proof (cases e)
  case (Metrics rt)
  show ?thesis
  proof (cases "lastGC (collector w) < NumGC (ReadMemStats rt) \<and>
      lastPause (collector w) < LastGC (ReadMemStats rt)")
    case True
    then have "histogram (step e w) = histogram w @
        [float64_of_uint64 (LastGC (ReadMemStats rt) - lastPause (collector w)) / 1000000000]"
      by (simp add: Metrics histogram_callback)
    then show ?thesis
      using assms float64_of_uint64_nonneg by simp
  next
    case False
    then have "histogram (step e w) = histogram w"
      by (auto simp add: Metrics histogram_callback)
    then show ?thesis
      using assms by simp
  qed
qed (use assms in \<open>simp_all add: Add_def\<close>)

lemma histogram_nonneg_run:
  assumes "\<forall>v \<in> set (histogram w). 0 \<le> v"
  shows "\<forall>v \<in> set (histogram (run evs w)). 0 \<le> v"
  using assms
proof (induction evs arbitrary: w)
  case Nil
  then show ?case by simp
next
  case (Cons e evs)
  show ?case
    using Cons.IH [OF histogram_nonneg_step [OF Cons.prems]] by simp
qed

subsection \<open>Claims about the GC block of the callback\<close>

text \<open>
  C1. In every state the process can reach, a sampling pass adds to \<^verbatim>\<open>go_gc_cycles_total\<close>
  the snapshot's GC cycle count minus the stored \<open>lastGC\<close> when that difference is
  strictly positive and nothing otherwise (the cumulative value is read as the signed
  64-bit number it is, and does not wrap); and no step of the process, sampling pass or
  route handler, decreases the cumulative value.
\<close>

theorem gc_cycles_total_delta:
  "sint (counter (callback rt (run evs init_world)) gcCount) =
     sint (counter (run evs init_world) gcCount) +
     (if 0 < uint (NumGC (ReadMemStats rt)) - uint (lastGC (collector (run evs init_world)))
      then uint (NumGC (ReadMemStats rt)) - uint (lastGC (collector (run evs init_world)))
      else 0)
   \<and> sint (counter (run evs init_world) gcCount)
       \<le> sint (counter (step e (run evs init_world)) gcCount)"
proof -
  define w where "w = run evs init_world"
  have before: "sint (counter w gcCount) = uint (lastGC (collector w))"
    unfolding w_def by (rule sint_gcCount_reachable)
  have after: "sint (counter (step x w) gcCount) = uint (lastGC (collector (step x w)))" for x
    using sint_gcCount_reachable [of "evs @ [x]"] by (simp only: run_snoc w_def)
  have pass: "sint (counter (callback rt w) gcCount) = uint (lastGC (collector (callback rt w)))"
    using after [of "Metrics rt"] by simp
  have "sint (counter (callback rt w) gcCount) =
      sint (counter w gcCount) +
      (if 0 < uint (NumGC (ReadMemStats rt)) - uint (lastGC (collector w))
       then uint (NumGC (ReadMemStats rt)) - uint (lastGC (collector w)) else 0)"
    by (simp add: pass before collector_callback word_less_def)
  moreover have "sint (counter w gcCount) \<le> sint (counter (step e w) gcCount)"
    by (simp only: before after lastGC_step)
  ultimately show ?thesis
    unfolding w_def by (rule conjI)
qed

theorem gc_cycles_total_delta_witness:
  "sint (counter (callback (sample_runtime 7 50 0)
      (run [Metrics (sample_runtime 3 20 0), SimulateMutex 5] init_world)) gcCount) = 7
   \<and> sint (counter (run [Metrics (sample_runtime 3 20 0), SimulateMutex 5] init_world) gcCount) = 3"
  using gc_cycles_total_delta [of "sample_runtime 7 50 0"
      "[Metrics (sample_runtime 3 20 0), SimulateMutex 5]" AllocateMemory]
  by (simp add: sample_runtime_def sample_stats_def init_world_def counter_callback
      collector_callback Add_def int64_of_uint32_def)

text \<open>
  C4. A sampling pass changes the stored pair \<open>lastGC\<close>, \<open>lastPause\<close> only when the
  snapshot's cycle count is strictly greater than the stored one, and then sets both
  fields to the snapshot's cycle count and last-GC timestamp; otherwise the pair is
  what it was before the pass.
\<close>

theorem cumulative_state_update:
  "collector (callback rt w) =
    (if lastGC (collector w) < NumGC (ReadMemStats rt)
     then \<lparr>lastPause = LastGC (ReadMemStats rt), lastGC = NumGC (ReadMemStats rt)\<rparr>
     else collector w)"
  by (rule collector_callback)

theorem cumulative_state_update_witness:
  "collector (callback (sample_runtime 3 20 0) init_world) = \<lparr>lastPause = 20, lastGC = 3\<rparr>
   \<and> collector (callback (sample_runtime 3 90 0) (callback (sample_runtime 3 20 0) init_world))
       = \<lparr>lastPause = 20, lastGC = 3\<rparr>"
  using cumulative_state_update [of "sample_runtime 3 20 0" init_world]
    cumulative_state_update [of "sample_runtime 3 90 0" "callback (sample_runtime 3 20 0) init_world"]
  by (simp add: sample_runtime_def sample_stats_def init_world_def)

text \<open>
  C2. A sampling pass records into \<^verbatim>\<open>go_gc_duration_seconds\<close> only when the snapshot's
  cycle count strictly exceeds the stored one and the snapshot's last-GC timestamp
  strictly exceeds the stored one; what it records is the new timestamp minus the stored
  one (the subtraction does not wrap) divided by \<open>10\<^sup>9\<close>, which is positive; and no value
  held by the histogram of a running process is negative.
\<close>

theorem gc_duration_recorded:
  "histogram (callback rt w) = histogram w @
     (if lastGC (collector w) < NumGC (ReadMemStats rt) \<and>
         lastPause (collector w) < LastGC (ReadMemStats rt)
      then [(real (unat (LastGC (ReadMemStats rt))) - real (unat (lastPause (collector w))))
              / 1000000000]
      else [])
   \<and> (lastPause (collector w) < LastGC (ReadMemStats rt) \<longrightarrow>
        0 < (real (unat (LastGC (ReadMemStats rt))) - real (unat (lastPause (collector w))))
              / 1000000000)
   \<and> (\<forall>v \<in> set (histogram (run evs init_world)). 0 \<le> v)"
proof (intro conjI)
  show "histogram (callback rt w) = histogram w @
     (if lastGC (collector w) < NumGC (ReadMemStats rt) \<and>
         lastPause (collector w) < LastGC (ReadMemStats rt)
      then [(real (unat (LastGC (ReadMemStats rt))) - real (unat (lastPause (collector w))))
              / 1000000000]
      else [])"
    by (simp add: histogram_callback float64_of_uint64_diff)
  show "lastPause (collector w) < LastGC (ReadMemStats rt) \<longrightarrow>
        0 < (real (unat (LastGC (ReadMemStats rt))) - real (unat (lastPause (collector w))))
              / 1000000000"
    by (simp add: word_less_nat_alt del: of_nat_unat)
  show "\<forall>v \<in> set (histogram (run evs init_world)). 0 \<le> v"
    by (rule histogram_nonneg_run) (simp add: init_world_def)
qed

theorem gc_duration_recorded_witness:
  "histogram (callback (sample_runtime 3 2500000000 0) init_world) = [5 / 2]
   \<and> histogram (callback (sample_runtime 4 1000000000 0)
        (callback (sample_runtime 3 2500000000 0) init_world)) = [5 / 2]
   \<and> histogram (callback (sample_runtime 3 9000000000 0)
        (callback (sample_runtime 3 2500000000 0) init_world)) = [5 / 2]"
  using gc_duration_recorded [of "sample_runtime 3 2500000000 0" init_world "[]"]
    gc_duration_recorded [of "sample_runtime 4 1000000000 0"
      "callback (sample_runtime 3 2500000000 0) init_world" "[]"]
    gc_duration_recorded [of "sample_runtime 3 9000000000 0"
      "callback (sample_runtime 3 2500000000 0) init_world" "[]"]
  by (simp add: sample_runtime_def sample_stats_def init_world_def collector_callback)

subsection \<open>Claims about the gauges\<close>

lemma published_callback_heapAlloc:
  "published (callback rt w) heapAlloc =
     Some (Int64 (int64_of_uint64 (HeapAlloc (ReadMemStats rt))))"
  by (simp add: published_def observed_callback)

lemma published_callback_osThreads:
  "published (callback rt w) osThreads = Some (Int64 (int64_of_int (NumCPU rt)))"
  by (simp add: published_def observed_callback)

text \<open>
  C3. On a machine with 8 logical CPUs whose runtime has created 12 OS threads, a
  sampling pass publishes 8 for \<^verbatim>\<open>go_threads\<close>: the instrument described as "Number
  of OS threads created" is fed \<^verbatim>\<open>runtime.NumCPU()\<close>, not a count of threads.
\<close>

theorem os_threads_publishes_cpu_count:
  "published (callback (sample_runtime 0 0 4096) init_world) osThreads = Some (Int64 8)
   \<and> NumCPU (sample_runtime 0 0 4096) = 8
   \<and> ThreadsCreated (sample_runtime 0 0 4096) = 12"
  by (simp add: published_callback_osThreads sample_runtime_def int64_of_int_def)

text \<open>
  C8, as stated, fails: a heap-alloc field of \<open>2\<^sup>6\<^sup>3\<close> is published as the signed
  64-bit value \<open>- 2\<^sup>6\<^sup>3\<close>.
\<close>

theorem heap_alloc_negative_counterexample:
  "published (callback (sample_runtime 0 0 9223372036854775808) init_world) heapAlloc
     = Some (Int64 9223372036854775808)
   \<and> sint (9223372036854775808 :: int64) = - 9223372036854775808"
  by (simp add: published_callback_heapAlloc sample_runtime_def sample_stats_def
      int64_of_uint64_def)

text \<open>
  C8, amended. For every snapshot whose heap-alloc field is below \<open>2\<^sup>6\<^sup>3\<close>, the value
  published for \<^verbatim>\<open>go_memstats_heap_alloc_bytes\<close> is that field, converted to a signed
  64-bit integer that is non-negative and equal to the field.
\<close>

theorem heap_alloc_nonnegative:
  assumes "uint (HeapAlloc (ReadMemStats rt)) < 2 ^ 63"
  shows "published (callback rt w) heapAlloc =
           Some (Int64 (int64_of_uint64 (HeapAlloc (ReadMemStats rt))))
     \<and> 0 \<le> sint (int64_of_uint64 (HeapAlloc (ReadMemStats rt)))
     \<and> sint (int64_of_uint64 (HeapAlloc (ReadMemStats rt))) = uint (HeapAlloc (ReadMemStats rt))"
proof -
  have "sint (int64_of_uint64 (HeapAlloc (ReadMemStats rt))) = uint (HeapAlloc (ReadMemStats rt))"
    using sint_eq_uint_64 [OF assms] by (simp only: int64_of_uint64_def)
  then show ?thesis
    by (simp add: published_callback_heapAlloc)
qed

theorem heap_alloc_nonnegative_witness:
  "published (callback (sample_runtime 0 0 4096) init_world) heapAlloc = Some (Int64 4096)
   \<and> sint (int64_of_uint64 4096) = 4096"
  using heap_alloc_nonnegative [of "sample_runtime 0 0 4096" init_world]
  by (simp add: sample_runtime_def sample_stats_def int64_of_uint64_def)

subsection \<open>Claims about the counters driven by the routes\<close>

text \<open>
  C7. After three calls of \<^verbatim>\<open>/simulate-mutex\<close>, each measuring an elapsed time of 0.1
  seconds (100000000 nanoseconds), \<^verbatim>\<open>go_mutex_lock_total\<close> holds 3 and
  \<^verbatim>\<open>go_mutex_wait_seconds_total\<close> holds 300000000: the handler adds nanoseconds to
  the counter named in seconds.
\<close>

theorem simulate_mutex_three_calls:
  "sint (counter (run [SimulateMutex 100000000, SimulateMutex 100000000,
        SimulateMutex 100000000] init_world) mutexLockCount) = 3
   \<and> sint (counter (run [SimulateMutex 100000000, SimulateMutex 100000000,
        SimulateMutex 100000000] init_world) mutexWaitTime) = 300000000"
  by (simp add: init_world_def Add_def)

lemma unused_counters_step:
  assumes "f \<in> {gcForced, goroutineExecTime, gcTime, systemTime}"
  shows "counter (step e w) f = counter w f"
  using assms by (cases e) (auto simp add: counter_callback Add_def)

lemma unused_counters_run:
  assumes "f \<in> {gcForced, goroutineExecTime, gcTime, systemTime}"
  shows "counter (run evs w) f = counter w f"
proof (induction evs arbitrary: w)
  case Nil
  show ?case by simp
next
  case (Cons e evs)
  show ?case
    by (simp add: Cons.IH unused_counters_step [OF assms])
qed

text \<open>
  C10. \<^verbatim>\<open>go_gc_forced_total\<close>, \<^verbatim>\<open>go_runtime_cpu_goroutine_seconds_total\<close>,
  \<^verbatim>\<open>go_gc_cpu_seconds_total\<close> and \<^verbatim>\<open>go_runtime_sys_seconds_total\<close> are created as
  counters by the constructor, and after any sequence of scrapes, route calls and
  goroutine bodies each of them still holds 0.
\<close>

theorem unused_counters_stay_zero:
  "counter (run evs init_world) gcForced = 0
   \<and> counter (run evs init_world) goroutineExecTime = 0
   \<and> counter (run evs init_world) gcTime = 0
   \<and> counter (run evs init_world) systemTime = 0
   \<and> (gcForced, ''go_gc_forced_total'', Int64Counter) \<in> set declarations
   \<and> (goroutineExecTime, ''go_runtime_cpu_goroutine_seconds_total'', Int64Counter)
        \<in> set declarations
   \<and> (gcTime, ''go_gc_cpu_seconds_total'', Int64Counter) \<in> set declarations
   \<and> (systemTime, ''go_runtime_sys_seconds_total'', Int64Counter) \<in> set declarations"
  by (simp add: unused_counters_run init_world_def declarations_def)

theorem unused_counters_stay_zero_witness:
  "counter (run [Metrics (sample_runtime 3 20 0), SpawnGoroutines, GoroutineBody,
      SimulateMutex 100000000, AllocateMemory, Metrics (sample_runtime 5 40 0)] init_world)
      gcForced = 0"
  using unused_counters_stay_zero [of "[Metrics (sample_runtime 3 20 0), SpawnGoroutines,
      GoroutineBody, SimulateMutex 100000000, AllocateMemory, Metrics (sample_runtime 5 40 0)]"]
  by (rule conjunct1)

subsection \<open>Claims about construction and start-up\<close>

lemma create_all_None:
  "create_all m c ds = (c', None) \<Longrightarrow> c' = c @ map snd ds"
proof (induction ds arbitrary: c)
  case Nil
  then show ?case by simp
next
  case (Cons d ds)
  obtain f n k where d: "d = (f, n, k)" by (cases d)
  show ?case
  proof (cases "create m c n k")
    case None
    then have "create_all m (c @ [(n, k)]) ds = (c', None)"
      using Cons.prems by (simp add: d)
    then have "c' = (c @ [(n, k)]) @ map snd ds" by (rule Cons.IH)
    then show ?thesis by (simp add: d)
  next
    case (Some e)
    then show ?thesis using Cons.prems by (simp add: d)
  qed
qed

lemma create_all_accepted:
  assumes "\<forall>j<length ds.
    create m (c @ map snd (take j ds)) (fst (snd (ds ! j))) (snd (snd (ds ! j))) = None"
  shows "create_all m c ds = (c @ map snd ds, None)"
  using assms
proof (induction ds arbitrary: c)
  case Nil
  show ?case by simp
next
  case (Cons d ds)
  obtain f n k where d: "d = (f, n, k)" by (cases d)
  have first: "create m c n k = None"
    using Cons.prems [rule_format, of 0] by (simp add: d)
  have "\<forall>j<length ds. create m ((c @ [(n, k)]) @ map snd (take j ds))
      (fst (snd (ds ! j))) (snd (snd (ds ! j))) = None"
  proof (intro allI impI)
    fix j assume "j < length ds"
    then show "create m ((c @ [(n, k)]) @ map snd (take j ds))
        (fst (snd (ds ! j))) (snd (snd (ds ! j))) = None"
      using Cons.prems [rule_format, of "Suc j"] by (simp add: d)
  qed
  then have "create_all m (c @ [(n, k)]) ds = ((c @ [(n, k)]) @ map snd ds, None)"
    by (rule Cons.IH)
  then show ?case by (simp add: d first)
qed

lemma create_all_append:
  "create_all m c (ds @ es) =
    (case create_all m c ds of
       (c', Some e) \<Rightarrow> (c', Some e)
     | (c', None) \<Rightarrow> create_all m c' es)"
  by (induction ds arbitrary: c) (auto split: option.splits)

lemma create_all_rejected:
  assumes i: "i < length ds"
    and accepted: "\<forall>j<i.
      create m (map snd (take j ds)) (fst (snd (ds ! j))) (snd (snd (ds ! j))) = None"
    and rejected: "create m (map snd (take i ds)) (fst (snd (ds ! i))) (snd (snd (ds ! i))) = Some e"
  shows "create_all m [] ds = (map snd (take i ds), Some e)"
proof -
  have "\<forall>j<length (take i ds). create m ([] @ map snd (take j (take i ds)))
      (fst (snd (take i ds ! j))) (snd (snd (take i ds ! j))) = None"
    using accepted i by (simp add: min_absorb2)
  then have prefix: "create_all m [] (take i ds) = ([] @ map snd (take i ds), None)"
    by (rule create_all_accepted)
  obtain f n k where d: "ds ! i = (f, n, k)" by (cases "ds ! i")
  have split: "ds = take i ds @ (f, n, k) # drop (Suc i) ds"
    unfolding d [symmetric] by (rule id_take_nth_drop [OF i])
  have "create_all m [] (take i ds @ (f, n, k) # drop (Suc i) ds) =
      (map snd (take i ds), Some e)"
    using rejected by (simp add: create_all_append prefix d)
  then show ?thesis using split by simp
qed

lemma main_Run:
  assumes "main p m = Run created mc"
  shows "created = map snd declarations \<and> mc = Some \<lparr>lastPause = 0, lastGC = 0\<rparr>"
proof -
  obtain c r where res: "create_all m [] declarations = (c, r)"
    by (cases "create_all m [] declarations")
  show ?thesis
  proof (cases r)
    case None
    then have "c = [] @ map snd declarations"
      using res by (intro create_all_None [of m]) simp
    then show ?thesis
      using assms res None
      by (auto simp add: main_def newMetricsCollector_def split: option.splits)
  next
    case (Some e)
    then show ?thesis
      using assms res
      by (auto simp add: main_def newMetricsCollector_def split: option.splits)
  qed
qed

text \<open>
  C6. If the backend rejects the creation of the \<open>i\<close>-th instrument, having accepted
  those before it, the constructor returns that error and no collector, having created
  only the instruments before the \<open>i\<close>-th; \<^verbatim>\<open>main\<close> ends in \<^verbatim>\<open>log.Fatal\<close> with that
  error and never reaches \<^verbatim>\<open>r.Run\<close>. Whenever \<^verbatim>\<open>main\<close> does reach \<^verbatim>\<open>r.Run\<close>, every
  instrument of the constructor has been created.
\<close>

theorem rejected_instrument_is_fatal:
  "(i < length declarations \<and>
    (\<forall>j<i. create m (map snd (take j declarations))
       (fst (snd (declarations ! j))) (snd (snd (declarations ! j))) = None) \<and>
    create m (map snd (take i declarations))
       (fst (snd (declarations ! i))) (snd (snd (declarations ! i))) = Some e
    \<longrightarrow> newMetricsCollector m = (map snd (take i declarations), None, Some e)
      \<and> main None m = Fatal e
      \<and> (\<forall>p created mc. main p m \<noteq> Run created mc))
   \<and> (\<forall>p created mc. main p m = Run created mc \<longrightarrow> created = map snd declarations)"
proof (intro conjI impI allI)
  assume h: "i < length declarations \<and>
    (\<forall>j<i. create m (map snd (take j declarations))
       (fst (snd (declarations ! j))) (snd (snd (declarations ! j))) = None) \<and>
    create m (map snd (take i declarations))
       (fst (snd (declarations ! i))) (snd (snd (declarations ! i))) = Some e"
  then have res: "create_all m [] declarations = (map snd (take i declarations), Some e)"
    by (intro create_all_rejected) simp_all
  then show new: "newMetricsCollector m = (map snd (take i declarations), None, Some e)"
    by (simp add: newMetricsCollector_def)
  then show "main None m = Fatal e"
    by (simp add: main_def)
  fix p created mc
  show "main p m \<noteq> Run created mc"
    using new by (simp add: main_def split: option.splits)
next
  fix p created mc
  assume "main p m = Run created mc"
  then show "created = map snd declarations"
    using main_Run by blast
qed

theorem rejected_instrument_is_fatal_witness:
  "newMetricsCollector (rejecting_meter ''go_gc_forced_total'') =
     (map snd (take 8 declarations), None, Some (Err ''rejected''))
   \<and> main None (rejecting_meter ''go_gc_forced_total'') = Fatal (Err ''rejected'')
   \<and> main None accepting_meter = Run (map snd declarations) (Some \<lparr>lastPause = 0, lastGC = 0\<rparr>)"
proof -
  let ?m = "rejecting_meter ''go_gc_forced_total''"
  have len: "8 < length declarations"
    by (simp add: declarations_def)
  have accepted: "\<forall>j<8. create ?m (map snd (take j declarations))
      (fst (snd (declarations ! j))) (snd (snd (declarations ! j))) = None"
  proof (intro allI impI)
    fix j :: nat
    assume "j < 8"
    then consider "j = 0" | "j = 1" | "j = 2" | "j = 3" | "j = 4" | "j = 5" | "j = 6" | "j = 7"
      by linarith
    then show "create ?m (map snd (take j declarations))
        (fst (snd (declarations ! j))) (snd (snd (declarations ! j))) = None"
      by cases (simp_all add: declarations_def rejecting_meter_def)
  qed
  have rejected: "create ?m (map snd (take 8 declarations))
      (fst (snd (declarations ! 8))) (snd (snd (declarations ! 8))) = Some (Err ''rejected'')"
    by (simp add: declarations_def rejecting_meter_def)
  have fatal: "newMetricsCollector ?m = (map snd (take 8 declarations), None, Some (Err ''rejected''))
      \<and> main None ?m = Fatal (Err ''rejected'')"
    using rejected_instrument_is_fatal [of 8 ?m "Err ''rejected''"] len accepted rejected
    by blast
  have "create_all accepting_meter [] declarations = ([] @ map snd declarations, None)"
    by (rule create_all_accepted) (simp add: accepting_meter_def)
  then have "main None accepting_meter =
      Run (map snd declarations) (Some \<lparr>lastPause = 0, lastGC = 0\<rparr>)"
    by (simp add: main_def newMetricsCollector_def accepting_meter_def)
  then show ?thesis
    using fatal by simp
qed

text \<open>
  C5, as stated, fails: the constructor creates 21 instruments, as many as Table 4.1 has
  rows, not 20; and when the runtime has completed 3 GC cycles by the time of the first
  scrape, that scrape leaves the counter \<^verbatim>\<open>go_gc_cycles_total\<close> at 3, not at 0.
\<close>

theorem startup_scrape_counterexample:
  "length declarations = 21
   \<and> length table_4_1 = 21
   \<and> (gcCount, ''go_gc_cycles_total'', Int64Counter) \<in> set declarations
   \<and> sint (counter (run [Metrics (sample_runtime 3 20 0)] init_world) gcCount) = 3"
  by (simp add: declarations_def table_4_1_def counter_callback init_world_def
      sample_runtime_def sample_stats_def int64_of_uint32_def)

text \<open>
  C5, amended. A process that reaches \<^verbatim>\<open>r.Run\<close> has created the 21 instruments of the
  constructor, under distinct names, each of the kind that Table 4.1 gives in the same
  row, and holds a collector with both stored fields 0; and after a first scrape every
  counter holds 0 except \<^verbatim>\<open>go_gc_cycles_total\<close>, which holds the GC cycle count of that
  scrape's snapshot.
\<close>

theorem startup_instruments_and_counters:
  "(\<forall>p m created mc. main p m = Run created mc \<longrightarrow>
       created = map snd declarations \<and> mc = Some \<lparr>lastPause = 0, lastGC = 0\<rparr>)
   \<and> length declarations = 21
   \<and> distinct (map (fst \<circ> snd) declarations)
   \<and> map (kind_in_table \<circ> snd \<circ> snd) declarations = map snd table_4_1
   \<and> (\<forall>rt f. sint (counter (run [Metrics rt] init_world) f) =
         (if f = gcCount then uint (NumGC (ReadMemStats rt)) else 0))"
proof (intro conjI allI impI)
  fix p m created mc
  assume "main p m = Run created mc"
  then show "created = map snd declarations" and "mc = Some \<lparr>lastPause = 0, lastGC = 0\<rparr>"
    using main_Run by blast+
next
  show "length declarations = 21"
    by (simp add: declarations_def)
  show "distinct (map (fst \<circ> snd) declarations)"
    by (simp add: declarations_def)
  show "map (kind_in_table \<circ> snd \<circ> snd) declarations = map snd table_4_1"
    by (simp add: declarations_def table_4_1_def)
next
  fix rt f
  show "sint (counter (run [Metrics rt] init_world) f) =
      (if f = gcCount then uint (NumGC (ReadMemStats rt)) else 0)"
  proof (cases "f = gcCount")
    case True
    have "sint (counter (run [Metrics rt] init_world) gcCount) =
        uint (lastGC (collector (callback rt init_world)))"
      using sint_gcCount_reachable [of "[Metrics rt]"] by simp
    also have "\<dots> = uint (NumGC (ReadMemStats rt))"
      by (simp add: collector_callback init_world_def word_gt_0)
    finally show ?thesis
      using True by simp
  next
    case False
    then show ?thesis
      by (simp add: counter_callback init_world_def)
  qed
qed

theorem startup_instruments_and_counters_witness:
  "main None accepting_meter = Run (map snd declarations) (Some \<lparr>lastPause = 0, lastGC = 0\<rparr>)
   \<and> sint (counter (run [Metrics (sample_runtime 0 0 4096)] init_world) gcCount) = 0
   \<and> sint (counter (run [Metrics (sample_runtime 0 0 4096)] init_world) mutexLockCount) = 0"
proof -
  have "create_all accepting_meter [] declarations = ([] @ map snd declarations, None)"
    by (rule create_all_accepted) (simp add: accepting_meter_def)
  then have run: "main None accepting_meter =
      Run (map snd declarations) (Some \<lparr>lastPause = 0, lastGC = 0\<rparr>)"
    by (simp add: main_def newMetricsCollector_def accepting_meter_def)
  have "sint (counter (run [Metrics (sample_runtime 0 0 4096)] init_world) f) =
      (if f = gcCount then uint (NumGC (ReadMemStats (sample_runtime 0 0 4096))) else 0)" for f
    using startup_instruments_and_counters by blast
  then show ?thesis
    using run by (simp add: sample_runtime_def sample_stats_def)
qed

end
